theory Spec2Isabelle
  imports Complex_Main "HOL-Library.Word"
begin

section \<open>The telemetry persistence layer of the remote transceiver (sailbot_db.cpp)\<close>

text \<open>
  The class \<open>SailbotDB\<close> receives one decoded \<open>Polaris::Sensors\<close> message together
  with the receipt information of the transport layer, and writes one BSON document per
  sensor category into a MongoDB database through the mongocxx driver.

  The embedding follows the translation unit function by function. What the C++ code does
  beyond returning a value is explicit:
  \<^item> the server and its collections are a state (\<open>mongo\<close>) that every serializer takes and
    returns;
  \<^item> an exception of the driver is the left summand of the result (\<open>std_exception + 'a\<close>);
  \<^item> the range-based \<open>for\<close> loops over the repeated fields are recursive functions that
    carry the array built so far.
\<close>

subsection \<open>BSON values and documents\<close>

text \<open>
  The values the stream builder of bsoncxx is given in this file. The type \<open>'f\<close> stands for
  the floating-point numbers: every \<open>float\<close> field of the message is handed to the builder
  untouched (the promotion of \<open>float\<close> to \<open>double\<close> that selects the \<open>double\<close> element is
  exact), so the code never inspects one. BSON has neither unsigned nor 16-bit integers:
  an \<open>int\<close> or anything promoted to \<open>int\<close> is stored as a 32-bit element, an \<open>int64_t\<close>
  as a 64-bit element. A document keeps its elements in the order they were streamed.
\<close>

datatype 'f bson =
    B_double 'f
  | B_utf8 string
  | B_int32 "32 word"
  | B_int64 "64 word"
  | B_array "'f bson list"
  | B_document "(string \<times> 'f bson) list"

type_synonym 'f DocVal = "(string \<times> 'f bson) list"

subsection \<open>The decoded messages (sensors.pb.h, waypoint.pb.h)\<close>

text \<open>
  Modelled from the spec: the generated protocol-buffer classes are not part of the
  translation unit. The fields are the accessors the code calls; their types are the ones
  the specification's data model gives: the identifier of an AIS ship and the id and data of
  a generic sensor are unsigned 32-bit integers (the comment in \<open>storeAis\<close> says so too), the
  direction of a wind sensor is a signed 32-bit integer (a "natively wider integer" than the
  16 bits it is stored in), everything else is a \<open>float\<close>. The field names carry the name of
  their message as a prefix, since several messages have a \<open>latitude\<close>, and \<open>id\<close> and
  \<open>length\<close> are names of HOL.
\<close>

record 'f Gps =
  gps_latitude :: 'f
  gps_longitude :: 'f
  gps_speed :: 'f
  gps_heading :: 'f

record 'f Ais =
  ais_id :: "32 word"
  ais_latitude :: 'f
  ais_longitude :: 'f
  ais_sog :: 'f
  ais_cog :: 'f
  ais_rot :: 'f
  ais_width :: 'f
  ais_length :: 'f

record Generic =
  generic_id :: "32 word"
  generic_data :: "32 word"

record 'f Battery =
  battery_voltage :: 'f
  battery_current :: 'f

record 'f Wind =
  wind_speed :: 'f
  wind_direction :: "32 word"

record 'f Waypoint =
  waypoint_latitude :: 'f
  waypoint_longitude :: 'f

record 'f Path =
  waypoints :: "'f Waypoint list"

record 'f Sensors =
  gps :: "'f Gps"
  ais_ships :: "'f Ais list"
  data_sensors :: "Generic list"
  batteries :: "'f Battery list"
  wind_sensors :: "'f Wind list"
  local_path_data :: "'f Path"

text \<open>
  Modelled from the spec: \<open>RcvdMsgInfo\<close> is declared in sailbot_db.h, which is not part of
  the translation unit. Only its timestamp is read; the further fields the header may
  declare live in the extension part of the record. A name of Isabelle cannot end with an
  underscore: the members \<open>timestamp_\<close>, \<open>db_name_\<close> and \<open>pool_\<close> of the C++ code are
  \<open>m_timestamp\<close>, \<open>m_db_name\<close> and \<open>m_pool\<close> here.
\<close>

record RcvdMsgInfo =
  m_timestamp :: string

text \<open>
  Modelled from the spec: the collection names are constants of sailbot_db.h; their values
  are the ones of the specification's table of categories.
\<close>

definition COLLECTION_GPS :: string where
  "COLLECTION_GPS = ''gps''"

definition COLLECTION_AIS_SHIPS :: string where
  "COLLECTION_AIS_SHIPS = ''ais_ships''"

definition COLLECTION_DATA_SENSORS :: string where
  "COLLECTION_DATA_SENSORS = ''data_sensors''"

definition COLLECTION_BATTERIES :: string where
  "COLLECTION_BATTERIES = ''batteries''"

definition COLLECTION_WIND_SENSORS :: string where
  "COLLECTION_WIND_SENSORS = ''wind_sensors''"

definition COLLECTION_LOCAL_PATH :: string where
  "COLLECTION_LOCAL_PATH = ''local_path''"

subsection \<open>The driver: exceptions, the pool, the server\<close>

text \<open>
  Every exception the driver and the standard library throw derives from
  \<open>std::exception\<close>; \<open>what\<close> is its message.
\<close>

datatype std_exception = Std_exception (what: string)

text \<open>
  A \<open>mongocxx::uri\<close> is built from the connection string by the driver, which throws when
  the string is malformed; a pool is built from a uri. The driver's parser is a parameter
  of the constructor below.
\<close>

datatype uri = Uri string

datatype pool = Pool uri

record SailbotDB =
  m_db_name :: string
  m_pool :: pool

text \<open>
  One \<open>insert_one\<close> on a collection handle: the database, the collection and the document.
\<close>

record 'f insert_cmd =
  cmd_db :: string
  cmd_coll :: string
  cmd_doc :: "'f DocVal"

text \<open>
  What one \<open>insert_one\<close> can do. The driver returns an engaged optional when the server
  acknowledges the write, an empty optional when the write is not acknowledged, and throws
  when the operation fails. An acknowledged write is in the collection; for the other two
  the flag says whether the server applied the write all the same.
\<close>

datatype insert_outcome =
    Acknowledged
  | Unacknowledged bool
  | Throws std_exception bool

fun applied :: "insert_outcome \<Rightarrow> bool" where
  "applied Acknowledged = True"
| "applied (Unacknowledged b) = b"
| "applied (Throws e b) = b"

type_synonym 'f server = "'f insert_cmd \<Rightarrow> insert_outcome"

text \<open>
  The state seen through one leased client: \<open>issued\<close> are the insert commands sent so far,
  oldest first, \<open>stored\<close> the documents in the collections, oldest first.
\<close>

record 'f mongo =
  issued :: "'f insert_cmd list"
  stored :: "'f insert_cmd list"

type_synonym ('f, 'a) db_op = "'f mongo \<Rightarrow> (std_exception + 'a) \<times> 'f mongo"

definition insert_one :: "'f server \<Rightarrow> 'f insert_cmd \<Rightarrow> ('f, unit option) db_op" where
  "insert_one srv c m =
     (let m' = m\<lparr>issued := issued m @ [c],
                 stored := (if applied (srv c) then stored m @ [c] else stored m)\<rparr>
      in case srv c of
           Acknowledged \<Rightarrow> (Inr (Some ()), m')
         | Unacknowledged b \<Rightarrow> (Inr None, m')
         | Throws e b \<Rightarrow> (Inl e, m'))"

text \<open>\<open>static_cast<bool>\<close> of the optional an insert returns.\<close>

definition insert_acknowledged :: "'f server \<Rightarrow> 'f insert_cmd \<Rightarrow> ('f, bool) db_op" where
  "insert_acknowledged srv c m =
     (case insert_one srv c m of
        (Inl e, m') \<Rightarrow> (Inl e, m')
      | (Inr r, m') \<Rightarrow> (Inr (r \<noteq> None), m'))"

text \<open>
  \<open>a && b\<close> on two calls that return \<open>bool\<close>: \<open>b\<close> is evaluated only when \<open>a\<close> returned
  \<open>true\<close>, and an exception of either leaves the expression.
\<close>

definition and_also :: "('f, bool) db_op \<Rightarrow> ('f, bool) db_op \<Rightarrow> ('f, bool) db_op" where
  "and_also a b m =
     (case a m of
        (Inl e, m') \<Rightarrow> (Inl e, m')
      | (Inr False, m') \<Rightarrow> (Inr False, m')
      | (Inr True, m') \<Rightarrow> b m')"

subsection \<open>The integer conversions at the call sites\<close>

text \<open>
  \<open>static_cast<int64_t>\<close> of a \<open>uint32_t\<close>: the 32 bits, extended with zeros.
\<close>

definition static_cast_int64 :: "32 word \<Rightarrow> 64 word" where
  "static_cast_int64 x = ucast x"

text \<open>
  \<open>static_cast<int16_t>\<close> of an \<open>int32_t\<close> keeps the low 16 bits (the conversion every
  two's complement implementation makes, and the one C++20 prescribes). The builder has no
  16-bit element: the \<open>int16_t\<close> is promoted to \<open>int\<close>, with its sign, and stored as a
  32-bit element.
\<close>

definition static_cast_int16 :: "32 word \<Rightarrow> 16 word" where
  "static_cast_int16 x = ucast x"

definition promote_int16 :: "16 word \<Rightarrow> 32 word" where
  "promote_int16 x = scast x"

subsection \<open>The category serializers\<close>

text \<open>\<open>storeGps\<close>: one flat document.\<close>

definition gps_doc :: "'f Gps \<Rightarrow> string \<Rightarrow> 'f DocVal" where
  "gps_doc gps_pb timestamp =
     [(''latitude'', B_double (gps_latitude gps_pb)),
      (''longitude'', B_double (gps_longitude gps_pb)),
      (''speed'', B_double (gps_speed gps_pb)),
      (''heading'', B_double (gps_heading gps_pb)),
      (''timestamp'', B_utf8 timestamp)]"

definition storeGps ::
  "'f server \<Rightarrow> SailbotDB \<Rightarrow> 'f Gps \<Rightarrow> string \<Rightarrow> ('f, bool) db_op" where
  "storeGps srv this gps_pb timestamp =
     insert_acknowledged srv
       \<lparr>cmd_db = m_db_name this, cmd_coll = COLLECTION_GPS, cmd_doc = gps_doc gps_pb timestamp\<rparr>"

text \<open>
  \<open>storeAis\<close>: the loop appends one sub-document per ship to the open array; the array is
  closed, the timestamp is streamed after it, and the document is inserted.
\<close>

definition ais_ship_doc :: "'f Ais \<Rightarrow> 'f DocVal" where
  "ais_ship_doc ais_ship =
     [(''id'', B_int64 (static_cast_int64 (ais_id ais_ship))),
      (''latitude'', B_double (ais_latitude ais_ship)),
      (''longitude'', B_double (ais_longitude ais_ship)),
      (''sog'', B_double (ais_sog ais_ship)),
      (''cog'', B_double (ais_cog ais_ship)),
      (''rot'', B_double (ais_rot ais_ship)),
      (''width'', B_double (ais_width ais_ship)),
      (''length'', B_double (ais_length ais_ship))]"

fun ais_ships_doc_arr :: "'f bson list \<Rightarrow> 'f Ais list \<Rightarrow> 'f bson list" where
  "ais_ships_doc_arr arr [] = arr"
| "ais_ships_doc_arr arr (ais_ship # rest) =
     ais_ships_doc_arr (arr @ [B_document (ais_ship_doc ais_ship)]) rest"

definition ais_ships_doc :: "'f Ais list \<Rightarrow> string \<Rightarrow> 'f DocVal" where
  "ais_ships_doc ais_ships_pb timestamp =
     [(''ships'', B_array (ais_ships_doc_arr [] ais_ships_pb)),
      (''timestamp'', B_utf8 timestamp)]"

definition storeAis ::
  "'f server \<Rightarrow> SailbotDB \<Rightarrow> 'f Ais list \<Rightarrow> string \<Rightarrow> ('f, bool) db_op" where
  "storeAis srv this ais_ships_pb timestamp =
     insert_acknowledged srv
       \<lparr>cmd_db = m_db_name this, cmd_coll = COLLECTION_AIS_SHIPS,
        cmd_doc = ais_ships_doc ais_ships_pb timestamp\<rparr>"

text \<open>\<open>storeGenericSensors\<close>.\<close>

definition generic_sensor_doc :: "Generic \<Rightarrow> 'f DocVal" where
  "generic_sensor_doc generic =
     [(''id'', B_int64 (static_cast_int64 (generic_id generic))),
      (''data'', B_int64 (static_cast_int64 (generic_data generic)))]"

fun generic_doc_arr :: "'f bson list \<Rightarrow> Generic list \<Rightarrow> 'f bson list" where
  "generic_doc_arr arr [] = arr"
| "generic_doc_arr arr (generic # rest) =
     generic_doc_arr (arr @ [B_document (generic_sensor_doc generic)]) rest"

definition generic_doc :: "Generic list \<Rightarrow> string \<Rightarrow> 'f DocVal" where
  "generic_doc generic_pb timestamp =
     [(''genericSensors'', B_array (generic_doc_arr [] generic_pb)),
      (''timestamp'', B_utf8 timestamp)]"

definition storeGenericSensors ::
  "'f server \<Rightarrow> SailbotDB \<Rightarrow> Generic list \<Rightarrow> string \<Rightarrow> ('f, bool) db_op" where
  "storeGenericSensors srv this generic_pb timestamp =
     insert_acknowledged srv
       \<lparr>cmd_db = m_db_name this, cmd_coll = COLLECTION_DATA_SENSORS,
        cmd_doc = generic_doc generic_pb timestamp\<rparr>"

text \<open>\<open>storeBatteries\<close>.\<close>

definition battery_doc :: "'f Battery \<Rightarrow> 'f DocVal" where
  "battery_doc battery =
     [(''voltage'', B_double (battery_voltage battery)),
      (''current'', B_double (battery_current battery))]"

fun batteries_doc_arr :: "'f bson list \<Rightarrow> 'f Battery list \<Rightarrow> 'f bson list" where
  "batteries_doc_arr arr [] = arr"
| "batteries_doc_arr arr (battery # rest) =
     batteries_doc_arr (arr @ [B_document (battery_doc battery)]) rest"

definition batteries_doc :: "'f Battery list \<Rightarrow> string \<Rightarrow> 'f DocVal" where
  "batteries_doc battery_pb timestamp =
     [(''batteries'', B_array (batteries_doc_arr [] battery_pb)),
      (''timestamp'', B_utf8 timestamp)]"

definition storeBatteries ::
  "'f server \<Rightarrow> SailbotDB \<Rightarrow> 'f Battery list \<Rightarrow> string \<Rightarrow> ('f, bool) db_op" where
  "storeBatteries srv this battery_pb timestamp =
     insert_acknowledged srv
       \<lparr>cmd_db = m_db_name this, cmd_coll = COLLECTION_BATTERIES,
        cmd_doc = batteries_doc battery_pb timestamp\<rparr>"

text \<open>\<open>storeWindSensors\<close>: the direction is cast to \<open>int16_t\<close> before it is streamed.\<close>

definition wind_sensor_doc :: "'f Wind \<Rightarrow> 'f DocVal" where
  "wind_sensor_doc wind_sensor =
     [(''speed'', B_double (wind_speed wind_sensor)),
      (''direction'',
         B_int32 (promote_int16 (static_cast_int16 (wind_direction wind_sensor))))]"

fun wind_doc_arr :: "'f bson list \<Rightarrow> 'f Wind list \<Rightarrow> 'f bson list" where
  "wind_doc_arr arr [] = arr"
| "wind_doc_arr arr (wind_sensor # rest) =
     wind_doc_arr (arr @ [B_document (wind_sensor_doc wind_sensor)]) rest"

definition wind_doc :: "'f Wind list \<Rightarrow> string \<Rightarrow> 'f DocVal" where
  "wind_doc wind_pb timestamp =
     [(''windSensors'', B_array (wind_doc_arr [] wind_pb)),
      (''timestamp'', B_utf8 timestamp)]"

definition storeWindSensors ::
  "'f server \<Rightarrow> SailbotDB \<Rightarrow> 'f Wind list \<Rightarrow> string \<Rightarrow> ('f, bool) db_op" where
  "storeWindSensors srv this wind_pb timestamp =
     insert_acknowledged srv
       \<lparr>cmd_db = m_db_name this, cmd_coll = COLLECTION_WIND_SENSORS,
        cmd_doc = wind_doc wind_pb timestamp\<rparr>"

text \<open>\<open>storePathSensors\<close>: the loop runs over the waypoints of the path.\<close>

definition waypoint_doc :: "'f Waypoint \<Rightarrow> 'f DocVal" where
  "waypoint_doc waypoint =
     [(''latitude'', B_double (waypoint_latitude waypoint)),
      (''longitude'', B_double (waypoint_longitude waypoint))]"

fun local_path_doc_arr :: "'f bson list \<Rightarrow> 'f Waypoint list \<Rightarrow> 'f bson list" where
  "local_path_doc_arr arr [] = arr"
| "local_path_doc_arr arr (waypoint # rest) =
     local_path_doc_arr (arr @ [B_document (waypoint_doc waypoint)]) rest"

definition local_path_doc :: "'f Path \<Rightarrow> string \<Rightarrow> 'f DocVal" where
  "local_path_doc local_path_pb timestamp =
     [(''waypoints'', B_array (local_path_doc_arr [] (waypoints local_path_pb))),
      (''timestamp'', B_utf8 timestamp)]"

definition storePathSensors ::
  "'f server \<Rightarrow> SailbotDB \<Rightarrow> 'f Path \<Rightarrow> string \<Rightarrow> ('f, bool) db_op" where
  "storePathSensors srv this local_path_pb timestamp =
     insert_acknowledged srv
       \<lparr>cmd_db = m_db_name this, cmd_coll = COLLECTION_LOCAL_PATH,
        cmd_doc = local_path_doc local_path_pb timestamp\<rparr>"

subsection \<open>The public functions\<close>

text \<open>
  The constructor: the uri is built from the connection string, the pool from the uri.
  Neither call is inside a \<open>try\<close> block, so an exception of the driver leaves the
  constructor and no object exists. The two constructors of the driver are parameters.
\<close>

definition SailbotDB_ctor ::
  "(string \<Rightarrow> std_exception + uri) \<Rightarrow> (uri \<Rightarrow> std_exception + pool) \<Rightarrow>
   string \<Rightarrow> string \<Rightarrow> std_exception + SailbotDB" where
  "SailbotDB_ctor mongocxx_uri mongocxx_pool db_name mongodb_conn_str =
     (case mongocxx_uri mongodb_conn_str of
        Inl e \<Rightarrow> Inl e
      | Inr u \<Rightarrow>
          (case mongocxx_pool u of
             Inl e \<Rightarrow> Inl e
           | Inr p \<Rightarrow> Inr \<lparr>m_db_name = db_name, m_pool = p\<rparr>))"

text \<open>
  The calls \<open>testConnection\<close> makes on the driver, each with the exception it may throw:
  finishing the stream builder's document, leasing a client from the pool, taking the
  handle of a database from the client, and running a command on the database. The last
  one is the backing store as the driver sees it: the reply to the command, or the
  exception of a store that cannot be reached or that refuses.
\<close>

datatype client = Client pool

datatype database = Database client string

record 'f driver =
  finalize :: "'f DocVal \<Rightarrow> std_exception + 'f DocVal"
  acquire :: "pool \<Rightarrow> std_exception + client"
  client_database :: "client \<Rightarrow> string \<Rightarrow> std_exception + database"
  run_command :: "database \<Rightarrow> 'f DocVal \<Rightarrow> std_exception + 'f DocVal"

text \<open>
  \<open>testConnection\<close>: the command \<open>{ping: 1}\<close> is built, a client is leased and the handle
  of the database is taken, in this order and before the \<open>try\<close> block: an exception of one
  of these three steps leaves the function. The command is run inside the \<open>try\<close> block,
  whose handler catches \<open>std::exception\<close>, writes one line to \<open>std::cerr\<close> and returns
  \<open>false\<close>. The second component of the result is the content of \<open>std::cerr\<close>, line by
  line.
\<close>

definition testConnection ::
  "'f driver \<Rightarrow> SailbotDB \<Rightarrow> string list \<Rightarrow> (std_exception + bool) \<times> string list" where
  "testConnection drv this cerr =
     (case finalize drv [(''ping'', B_int32 1)] of
        Inl e \<Rightarrow> (Inl e, cerr)
      | Inr ping_cmd \<Rightarrow>
          (case acquire drv (m_pool this) of
             Inl e \<Rightarrow> (Inl e, cerr)
           | Inr entry \<Rightarrow>
               (case client_database drv entry (m_db_name this) of
                  Inl e \<Rightarrow> (Inl e, cerr)
                | Inr db \<Rightarrow>
                    (case run_command drv db ping_cmd of
                       Inr reply \<Rightarrow> (Inr True, cerr)
                     | Inl e \<Rightarrow> (Inr False, cerr @ [''Exception: '' @ what e])))))"

text \<open>
  \<open>storeNewSensors\<close>: the timestamp of the receipt information is handed to the six
  serializers, chained with \<open>&&\<close> on one leased client.
\<close>

definition storeNewSensors ::
  "'f server \<Rightarrow> SailbotDB \<Rightarrow> 'f Sensors \<Rightarrow> RcvdMsgInfo \<Rightarrow> ('f, bool) db_op" where
  "storeNewSensors srv this sensors_pb new_info =
     (let timestamp = m_timestamp new_info
      in and_also (storeGps srv this (gps sensors_pb) timestamp)
        (and_also (storeAis srv this (ais_ships sensors_pb) timestamp)
        (and_also (storeGenericSensors srv this (data_sensors sensors_pb) timestamp)
        (and_also (storeBatteries srv this (batteries sensors_pb) timestamp)
        (and_also (storeWindSensors srv this (wind_sensors sensors_pb) timestamp)
                  (storePathSensors srv this (local_path_data sensors_pb) timestamp))))))"

subsection \<open>One call as a sequence of inserts\<close>

text \<open>
  The six insert commands one call of \<open>storeNewSensors\<close> can issue, in the order of its
  \<open>&&\<close> chain: each is the command of the serializer at that place, on the database of the
  object and with the timestamp of the call.
\<close>

definition snapshot_cmds :: "SailbotDB \<Rightarrow> 'f Sensors \<Rightarrow> string \<Rightarrow> 'f insert_cmd list" where
  "snapshot_cmds this sensors_pb timestamp =
     [\<lparr>cmd_db = m_db_name this, cmd_coll = COLLECTION_GPS,
       cmd_doc = gps_doc (gps sensors_pb) timestamp\<rparr>,
      \<lparr>cmd_db = m_db_name this, cmd_coll = COLLECTION_AIS_SHIPS,
       cmd_doc = ais_ships_doc (ais_ships sensors_pb) timestamp\<rparr>,
      \<lparr>cmd_db = m_db_name this, cmd_coll = COLLECTION_DATA_SENSORS,
       cmd_doc = generic_doc (data_sensors sensors_pb) timestamp\<rparr>,
      \<lparr>cmd_db = m_db_name this, cmd_coll = COLLECTION_BATTERIES,
       cmd_doc = batteries_doc (batteries sensors_pb) timestamp\<rparr>,
      \<lparr>cmd_db = m_db_name this, cmd_coll = COLLECTION_WIND_SENSORS,
       cmd_doc = wind_doc (wind_sensors sensors_pb) timestamp\<rparr>,
      \<lparr>cmd_db = m_db_name this, cmd_coll = COLLECTION_LOCAL_PATH,
       cmd_doc = local_path_doc (local_path_data sensors_pb) timestamp\<rparr>]"

text \<open>
  A list of insert commands run one after the other, each only if the one before it was
  acknowledged. \<open>storeNewSensors\<close> is shown below to be this function on \<open>snapshot_cmds\<close>.
\<close>

fun insert_each :: "'f server \<Rightarrow> 'f insert_cmd list \<Rightarrow> ('f, bool) db_op" where
  "insert_each srv [] m = (Inr True, m)"
| "insert_each srv (c # cs) m = and_also (insert_acknowledged srv c) (insert_each srv cs) m"

subsection \<open>The example scenario of the specification\<close>

text \<open>
  One GPS reading, one AIS ship whose identifier is the largest \<open>uint32_t\<close>, nothing in the
  four other categories, received at 2024-01-01T00:00:00Z. The floating-point numbers are
  taken to be reals here.
\<close>

definition example_sensors :: "real Sensors" where
  "example_sensors =
     \<lparr>gps = \<lparr>gps_latitude = 49.1, gps_longitude = - 123.1, gps_speed = 5, gps_heading = 180\<rparr>,
      ais_ships = [\<lparr>ais_id = 4294967295, ais_latitude = 1, ais_longitude = 2, ais_sog = 3,
                    ais_cog = 4, ais_rot = 5, ais_width = 6, ais_length = 7\<rparr>],
      data_sensors = [],
      batteries = [],
      wind_sensors = [],
      local_path_data = \<lparr>waypoints = []\<rparr>\<rparr>"

definition example_info :: RcvdMsgInfo where
  "example_info = \<lparr>m_timestamp = ''2024-01-01T00:00:00Z''\<rparr>"

definition example_db :: SailbotDB where
  "example_db = \<lparr>m_db_name = ''sailbot'', m_pool = Pool (Uri ''mongodb://localhost:27017'')\<rparr>"

definition empty_mongo :: "'f mongo" where
  "empty_mongo = \<lparr>issued = [], stored = []\<rparr>"


text \<open>
  Two drivers for the probe. Both build the document and hand out the database handle. The
  first leases a client and cannot reach the store, so that the ping throws; the second
  has a pool whose wait for a free client times out, so that the lease throws.
\<close>

definition unreachable_store_driver :: "'f driver" where
  "unreachable_store_driver =
     \<lparr>finalize = (\<lambda>d. Inr d),
      acquire = (\<lambda>p. Inr (Client p)),
      client_database = (\<lambda>c n. Inr (Database c n)),
      run_command = (\<lambda>db cmd. Inl (Std_exception ''No suitable servers found''))\<rparr>"

definition exhausted_pool_driver :: "'f driver" where
  "exhausted_pool_driver =
     \<lparr>finalize = (\<lambda>d. Inr d),
      acquire = (\<lambda>p. Inl (Std_exception ''failed to acquire client'')),
      client_database = (\<lambda>c n. Inr (Database c n)),
      run_command = (\<lambda>db cmd. Inr [(''ok'', B_int32 1)])\<rparr>"

section \<open>Properties\<close>

subsection \<open>The loops build one sub-document per reading\<close>

lemma ais_ships_doc_arr_map:
  "ais_ships_doc_arr arr ships = arr @ map (\<lambda>s. B_document (ais_ship_doc s)) ships"
  by (induction ships arbitrary: arr) simp_all

lemma generic_doc_arr_map:
  "generic_doc_arr arr gs = arr @ map (\<lambda>g. B_document (generic_sensor_doc g)) gs"
  by (induction gs arbitrary: arr) simp_all

lemma batteries_doc_arr_map:
  "batteries_doc_arr arr bs = arr @ map (\<lambda>b. B_document (battery_doc b)) bs"
  by (induction bs arbitrary: arr) simp_all

lemma wind_doc_arr_map:
  "wind_doc_arr arr ws = arr @ map (\<lambda>w. B_document (wind_sensor_doc w)) ws"
  by (induction ws arbitrary: arr) simp_all

lemma local_path_doc_arr_map:
  "local_path_doc_arr arr ps = arr @ map (\<lambda>p. B_document (waypoint_doc p)) ps"
  by (induction ps arbitrary: arr) simp_all

subsection \<open>The chain of serializers\<close>

lemma insert_acknowledged_eq:
  "insert_acknowledged srv c m =
     ((case srv c of
         Acknowledged \<Rightarrow> Inr True
       | Unacknowledged b \<Rightarrow> Inr False
       | Throws e b \<Rightarrow> Inl e),
      m\<lparr>issued := issued m @ [c],
        stored := stored m @ (if applied (srv c) then [c] else [])\<rparr>)"
  by (simp add: insert_acknowledged_def insert_one_def Let_def split: insert_outcome.splits)

lemma storeNewSensors_insert_each:
  "storeNewSensors srv this sensors_pb new_info =
     insert_each srv (snapshot_cmds this sensors_pb (m_timestamp new_info))"
  unfolding storeNewSensors_def snapshot_cmds_def Let_def storeGps_def storeAis_def
    storeGenericSensors_def storeBatteries_def storeWindSensors_def storePathSensors_def
  by (simp add: fun_eq_iff and_also_def split: prod.splits sum.splits bool.splits)

text \<open>Each serializer is the insert of the command at its place of \<open>snapshot_cmds\<close>.\<close>

lemma snapshot_cmds_serializers:
  "storeGps srv this (gps sensors_pb) timestamp =
     insert_acknowledged srv (snapshot_cmds this sensors_pb timestamp ! 0)"
  "storeAis srv this (ais_ships sensors_pb) timestamp =
     insert_acknowledged srv (snapshot_cmds this sensors_pb timestamp ! 1)"
  "storeGenericSensors srv this (data_sensors sensors_pb) timestamp =
     insert_acknowledged srv (snapshot_cmds this sensors_pb timestamp ! 2)"
  "storeBatteries srv this (batteries sensors_pb) timestamp =
     insert_acknowledged srv (snapshot_cmds this sensors_pb timestamp ! 3)"
  "storeWindSensors srv this (wind_sensors sensors_pb) timestamp =
     insert_acknowledged srv (snapshot_cmds this sensors_pb timestamp ! 4)"
  "storePathSensors srv this (local_path_data sensors_pb) timestamp =
     insert_acknowledged srv (snapshot_cmds this sensors_pb timestamp ! 5)"
  by (simp_all add: snapshot_cmds_def storeGps_def storeAis_def storeGenericSensors_def
      storeBatteries_def storeWindSensors_def storePathSensors_def)

lemma length_snapshot_cmds: "length (snapshot_cmds this sensors_pb timestamp) = 6"
  by (simp add: snapshot_cmds_def)

lemma insert_each_all_acknowledged:
  "\<forall>c\<in>set cs. srv c = Acknowledged \<Longrightarrow>
   insert_each srv cs m = (Inr True, m\<lparr>issued := issued m @ cs, stored := stored m @ cs\<rparr>)"
  by (induction cs arbitrary: m) (auto simp: and_also_def insert_acknowledged_eq)

lemma insert_each_True:
  "fst (insert_each srv cs m) = Inr True \<longleftrightarrow> (\<forall>c\<in>set cs. srv c = Acknowledged)"
  by (induction cs arbitrary: m)
     (auto simp: and_also_def insert_acknowledged_eq split: insert_outcome.splits)


text \<open>
  Whatever the server does, the commands issued by \<open>insert_each\<close> are a prefix of the list
  and the documents stored are among the commands issued.
\<close>

lemma insert_each_issued:
  "\<exists>n. issued (snd (insert_each srv cs m)) = issued m @ take n cs"
proof (induction cs arbitrary: m)
  case Nil
  then show ?case by simp
next
  case (Cons c cs)
  show ?case
  proof (cases "srv c = Acknowledged")
    case True
    from Cons.IH [of "m\<lparr>issued := issued m @ [c], stored := stored m @ [c]\<rparr>"]
    obtain n where "issued (snd (insert_each srv cs
        (m\<lparr>issued := issued m @ [c], stored := stored m @ [c]\<rparr>))) =
        (issued m @ [c]) @ take n cs"
      by auto
    with True have "issued (snd (insert_each srv (c # cs) m)) = issued m @ take (Suc n) (c # cs)"
      by (simp add: and_also_def insert_acknowledged_eq)
    then show ?thesis by blast
  next
    case False
    then have "issued (snd (insert_each srv (c # cs) m)) = issued m @ take (Suc 0) (c # cs)"
      by (simp add: and_also_def insert_acknowledged_eq split: insert_outcome.splits)
    then show ?thesis by blast
  qed
qed

lemma insert_each_stored:
  "\<exists>ds. stored (snd (insert_each srv cs m)) = stored m @ ds \<and> set ds \<subseteq> set cs"
proof (induction cs arbitrary: m)
  case Nil
  then show ?case by simp
next
  case (Cons c cs)
  show ?case
  proof (cases "srv c = Acknowledged")
    case True
    from Cons.IH [of "m\<lparr>issued := issued m @ [c], stored := stored m @ [c]\<rparr>"]
    obtain ds where ds: "stored (snd (insert_each srv cs
        (m\<lparr>issued := issued m @ [c], stored := stored m @ [c]\<rparr>))) =
        (stored m @ [c]) @ ds" "set ds \<subseteq> set cs"
      by auto
    with True have "stored (snd (insert_each srv (c # cs) m)) = stored m @ (c # ds)"
      by (simp add: and_also_def insert_acknowledged_eq)
    moreover from ds have "set (c # ds) \<subseteq> set (c # cs)" by auto
    ultimately show ?thesis by blast
  next
    case False
    then have "stored (snd (insert_each srv (c # cs) m)) =
        stored m @ (if applied (srv c) then [c] else [])"
      by (simp add: and_also_def insert_acknowledged_eq split: insert_outcome.splits)
    moreover have "set (if applied (srv c) then [c] else []) \<subseteq> set (c # cs)" by auto
    ultimately show ?thesis by blast
  qed
qed

lemma snapshot_cmds_timestamp:
  "c \<in> set (snapshot_cmds this sensors_pb timestamp) \<Longrightarrow>
   map_of (cmd_doc c) ''timestamp'' = Some (B_utf8 timestamp)"
  by (auto simp: snapshot_cmds_def gps_doc_def ais_ships_doc_def generic_doc_def
      batteries_doc_def wind_doc_def local_path_doc_def)

subsection \<open>The coordinator\<close>



text \<open>
  C7. \<open>storeNewSensors\<close> returns \<open>true\<close> only when each of its six inserts was acknowledged
  (and then the six documents are in their collections): an insert that is not
  acknowledged or that throws makes the call return \<open>false\<close> or leave with the exception.
\<close>

theorem storeNewSensors_no_false_success:
  "fst (storeNewSensors srv this sensors_pb new_info m) = Inr True \<Longrightarrow>
   (\<forall>c\<in>set (snapshot_cmds this sensors_pb (m_timestamp new_info)). srv c = Acknowledged) \<and>
   stored (snd (storeNewSensors srv this sensors_pb new_info m)) =
     stored m @ snapshot_cmds this sensors_pb (m_timestamp new_info)"
proof -
  assume "fst (storeNewSensors srv this sensors_pb new_info m) = Inr True"
  then have "\<forall>c\<in>set (snapshot_cmds this sensors_pb (m_timestamp new_info)). srv c = Acknowledged"
    by (simp add: storeNewSensors_insert_each insert_each_True)
  then show ?thesis
    by (simp add: storeNewSensors_insert_each insert_each_all_acknowledged)
qed

theorem storeNewSensors_no_false_success_witness:
  "fst (storeNewSensors
     (\<lambda>c. if cmd_db c = ''sailbot'' then Acknowledged else Throws (Std_exception ''no such host'') False)
     example_db example_sensors example_info empty_mongo) = Inr True \<and>
   map cmd_coll (stored (snd (storeNewSensors
     (\<lambda>c. if cmd_db c = ''sailbot'' then Acknowledged else Throws (Std_exception ''no such host'') False)
     example_db example_sensors example_info empty_mongo))) =
   [''gps'', ''ais_ships'', ''data_sensors'', ''batteries'', ''wind_sensors'', ''local_path'']"
proof -
  let ?srv = "\<lambda>c::real insert_cmd.
    if cmd_db c = ''sailbot'' then Acknowledged else Throws (Std_exception ''no such host'') False"
  have h: "fst (storeNewSensors ?srv example_db example_sensors example_info empty_mongo) = Inr True"
    unfolding storeNewSensors_insert_each insert_each_True
    by (simp add: snapshot_cmds_def example_db_def)
  from storeNewSensors_no_false_success [OF h] h show ?thesis
    by (simp add: snapshot_cmds_def empty_mongo_def COLLECTION_GPS_def COLLECTION_AIS_SHIPS_def
        COLLECTION_DATA_SENSORS_def COLLECTION_BATTERIES_def COLLECTION_WIND_SENSORS_def
        COLLECTION_LOCAL_PATH_def)
qed

text \<open>
  C2. The documents one call of \<open>storeNewSensors\<close> sends and the documents it leaves in the
  collections are appended to what was there before, and each of them has a field
  \<open>timestamp\<close> that holds the timestamp of the receipt information, as a string, whatever
  the server answers.
\<close>

theorem storeNewSensors_same_timestamp:
  "take (length (issued m)) (issued (snd (storeNewSensors srv this sensors_pb new_info m))) =
     issued m \<and>
   take (length (stored m)) (stored (snd (storeNewSensors srv this sensors_pb new_info m))) =
     stored m \<and>
   (\<forall>c\<in>set (drop (length (issued m))
        (issued (snd (storeNewSensors srv this sensors_pb new_info m)))) \<union>
      set (drop (length (stored m))
        (stored (snd (storeNewSensors srv this sensors_pb new_info m)))).
      map_of (cmd_doc c) ''timestamp'' = Some (B_utf8 (m_timestamp new_info)))"
proof -
  let ?cs = "snapshot_cmds this sensors_pb (m_timestamp new_info)"
  let ?m' = "snd (storeNewSensors srv this sensors_pb new_info m)"
  obtain n where n: "issued ?m' = issued m @ take n ?cs"
    using insert_each_issued [of srv ?cs m] by (auto simp: storeNewSensors_insert_each)
  obtain ds where ds: "stored ?m' = stored m @ ds" "set ds \<subseteq> set ?cs"
    using insert_each_stored [of srv ?cs m] by (auto simp: storeNewSensors_insert_each)
  have "set (take n ?cs) \<subseteq> set ?cs" by (rule set_take_subset)
  with ds(2) have "\<forall>c\<in>set (take n ?cs) \<union> set ds.
      map_of (cmd_doc c) ''timestamp'' = Some (B_utf8 (m_timestamp new_info))"
    by (auto dest: snapshot_cmds_timestamp)
  with n ds(1) show ?thesis by simp
qed

theorem storeNewSensors_same_timestamp_witness:
  "length (stored (snd (storeNewSensors (\<lambda>c. Acknowledged) example_db example_sensors
      example_info (empty_mongo :: real mongo)))) = 6 \<and>
   list_all (\<lambda>c. map_of (cmd_doc c) ''timestamp'' = Some (B_utf8 ''2024-01-01T00:00:00Z''))
     (stored (snd (storeNewSensors (\<lambda>c. Acknowledged) example_db example_sensors
        example_info (empty_mongo :: real mongo))))"
proof -
  let ?m' = "snd (storeNewSensors (\<lambda>c. Acknowledged) example_db example_sensors example_info
    (empty_mongo :: real mongo))"
  have "stored ?m' = snapshot_cmds example_db example_sensors (m_timestamp example_info)"
    by (simp add: storeNewSensors_insert_each insert_each_all_acknowledged empty_mongo_def)
  then have len: "length (stored ?m') = 6"
    by (simp add: length_snapshot_cmds)
  from storeNewSensors_same_timestamp
    [of empty_mongo "\<lambda>c. Acknowledged" example_db example_sensors example_info]
  have "\<forall>c\<in>set (stored ?m'). map_of (cmd_doc c) ''timestamp'' =
      Some (B_utf8 (m_timestamp example_info))"
    by (simp add: empty_mongo_def)
  with len show ?thesis
    by (simp add: list_all_iff example_info_def)
qed

subsection \<open>The connectivity probe\<close>

text \<open>
  C3, as the code has it. Once the ping command is built, the client leased and the
  database handle taken, \<open>testConnection\<close> returns a boolean for every answer of the backing
  store and no exception leaves it: the result is \<open>true\<close> when the command returns and
  \<open>false\<close> when the command throws, and then one line with the message of the exception
  has been written to \<open>std::cerr\<close>.
\<close>

theorem testConnection_catches_ping_exception:
  "finalize drv [(''ping'', B_int32 1)] = Inr ping_cmd \<Longrightarrow>
   acquire drv (m_pool this) = Inr entry \<Longrightarrow>
   client_database drv entry (m_db_name this) = Inr db \<Longrightarrow>
   fst (testConnection drv this cerr) = Inr (\<not> isl (run_command drv db ping_cmd)) \<and>
   snd (testConnection drv this cerr) =
     cerr @ (case run_command drv db ping_cmd of
               Inl e \<Rightarrow> [''Exception: '' @ what e]
             | Inr reply \<Rightarrow> [])"
  by (auto simp: testConnection_def split: sum.splits)

text \<open>A store that cannot be reached: the probe returns \<open>false\<close> and logs the exception.\<close>

theorem testConnection_catches_ping_exception_witness:
  "testConnection (unreachable_store_driver :: real driver) example_db [] =
     (Inr False, [''Exception: No suitable servers found''])"
proof -
  have f: "finalize (unreachable_store_driver :: real driver) [(''ping'', B_int32 1)] =
      Inr [(''ping'', B_int32 1)]"
    by (simp add: unreachable_store_driver_def)
  have a: "acquire (unreachable_store_driver :: real driver) (m_pool example_db) =
      Inr (Client (m_pool example_db))"
    by (simp add: unreachable_store_driver_def)
  have d: "client_database (unreachable_store_driver :: real driver)
      (Client (m_pool example_db)) (m_db_name example_db) =
      Inr (Database (Client (m_pool example_db)) (m_db_name example_db))"
    by (simp add: unreachable_store_driver_def)
  from testConnection_catches_ping_exception [OF f a d, of "[]"] show ?thesis
    by (simp add: unreachable_store_driver_def prod_eq_iff)
qed

text \<open>
  C3 as the specification states it, no exception ever leaves the probe, fails when the
  lease throws: the lease is taken before the \<open>try\<close> block, and the exception leaves
  \<open>testConnection\<close>.
\<close>

theorem testConnection_never_throws_counterexample:
  "testConnection (exhausted_pool_driver :: real driver) example_db [] =
     (Inl (Std_exception ''failed to acquire client''), [])"
  by (simp add: testConnection_def exhausted_pool_driver_def)

subsection \<open>Construction\<close>

text \<open>
  C8. When the driver rejects the connection string, the constructor of \<open>SailbotDB\<close> leaves
  with the driver's exception: the caller of the constructor gets the error and no object.
\<close>

theorem SailbotDB_ctor_fails_fast:
  "mongocxx_uri mongodb_conn_str = Inl e \<Longrightarrow>
   SailbotDB_ctor mongocxx_uri mongocxx_pool db_name mongodb_conn_str = Inl e"
  by (simp add: SailbotDB_ctor_def)

theorem SailbotDB_ctor_fails_fast_witness:
  "SailbotDB_ctor
     (\<lambda>s. if take 10 s = ''mongodb://'' then Inr (Uri s) else Inl (Std_exception ''Invalid URI''))
     (\<lambda>u. Inr (Pool u)) ''sailbot'' ''localhost:27017'' =
   Inl (Std_exception ''Invalid URI'')"
  using SailbotDB_ctor_fails_fast
    [of "\<lambda>s. if take 10 s = ''mongodb://'' then Inr (Uri s)
             else Inl (Std_exception ''Invalid URI'')"
        "''localhost:27017''" "Std_exception ''Invalid URI''" "\<lambda>u. Inr (Pool u)" "''sailbot''"]
  by simp

subsection \<open>The integer fields\<close>






subsection \<open>The documents of the serializers\<close>

text \<open>
  C9. Whatever the list of ships, \<open>storeAis\<close> issues one insert, into the AIS collection.
  Its document has two fields: the array \<open>ships\<close> with one sub-document per ship, in the
  order of the list, and after it the \<open>timestamp\<close>. No sub-document of a ship has a field
  \<open>timestamp\<close>. The document is stored once when the server applies the insert.
\<close>

theorem storeAis_one_document:
  "(let c = \<lparr>cmd_db = m_db_name this, cmd_coll = COLLECTION_AIS_SHIPS,
             cmd_doc = [(''ships'', B_array (map (\<lambda>s. B_document (ais_ship_doc s)) ais_ships_pb)),
                        (''timestamp'', B_utf8 timestamp)]\<rparr>
    in issued (snd (storeAis srv this ais_ships_pb timestamp m)) = issued m @ [c] \<and>
       stored (snd (storeAis srv this ais_ships_pb timestamp m)) =
         stored m @ (if applied (srv c) then [c] else [])) \<and>
   map_of (ais_ship_doc ais_ship) ''timestamp'' = None \<and>
   ''timestamp'' \<notin> fst ` set (ais_ship_doc ais_ship)"
  by (simp add: storeAis_def insert_acknowledged_eq ais_ships_doc_def ais_ships_doc_arr_map
      ais_ship_doc_def Let_def)

text \<open>
  C10. The array of a list category is stored under a fixed name: \<open>ships\<close> by \<open>storeAis\<close>,
  \<open>genericSensors\<close> by \<open>storeGenericSensors\<close>, \<open>batteries\<close> by \<open>storeBatteries\<close>,
  \<open>windSensors\<close> by \<open>storeWindSensors\<close>, \<open>waypoints\<close> by \<open>storePathSensors\<close>; the array has
  one sub-document per reading. The sub-document of an AIS ship has the fields \<open>id\<close>,
  \<open>latitude\<close>, \<open>longitude\<close>, \<open>sog\<close>, \<open>cog\<close>, \<open>rot\<close>, \<open>width\<close>, \<open>length\<close>, where \<open>sog\<close>, \<open>cog\<close>
  and \<open>rot\<close> hold the speed over ground, the course over ground and the rate of turn.
\<close>

theorem array_field_names:
  "map cmd_doc (drop (length (issued m)) (issued (snd (storeAis srv this ais_ships_pb timestamp m)))) =
     [[(''ships'', B_array (map (\<lambda>s. B_document (ais_ship_doc s)) ais_ships_pb)),
       (''timestamp'', B_utf8 timestamp)]] \<and>
   map cmd_doc (drop (length (issued m))
       (issued (snd (storeGenericSensors srv this generic_pb timestamp m)))) =
     [[(''genericSensors'', B_array (map (\<lambda>g. B_document (generic_sensor_doc g)) generic_pb)),
       (''timestamp'', B_utf8 timestamp)]] \<and>
   map cmd_doc (drop (length (issued m))
       (issued (snd (storeBatteries srv this battery_pb timestamp m)))) =
     [[(''batteries'', B_array (map (\<lambda>b. B_document (battery_doc b)) battery_pb)),
       (''timestamp'', B_utf8 timestamp)]] \<and>
   map cmd_doc (drop (length (issued m))
       (issued (snd (storeWindSensors srv this wind_pb timestamp m)))) =
     [[(''windSensors'', B_array (map (\<lambda>w. B_document (wind_sensor_doc w)) wind_pb)),
       (''timestamp'', B_utf8 timestamp)]] \<and>
   map cmd_doc (drop (length (issued m))
       (issued (snd (storePathSensors srv this local_path_pb timestamp m)))) =
     [[(''waypoints'', B_array (map (\<lambda>p. B_document (waypoint_doc p)) (waypoints local_path_pb))),
       (''timestamp'', B_utf8 timestamp)]] \<and>
   map fst (ais_ship_doc ais_ship) =
     [''id'', ''latitude'', ''longitude'', ''sog'', ''cog'', ''rot'', ''width'', ''length''] \<and>
   map_of (ais_ship_doc ais_ship) ''sog'' = Some (B_double (ais_sog ais_ship)) \<and>
   map_of (ais_ship_doc ais_ship) ''cog'' = Some (B_double (ais_cog ais_ship)) \<and>
   map_of (ais_ship_doc ais_ship) ''rot'' = Some (B_double (ais_rot ais_ship))"
proof -
  have "map cmd_doc (drop (length (issued m))
      (issued (snd (storeAis srv this ais_ships_pb timestamp m)))) =
     [[(''ships'', B_array (map (\<lambda>s. B_document (ais_ship_doc s)) ais_ships_pb)),
       (''timestamp'', B_utf8 timestamp)]]"
    by (simp add: storeAis_def insert_acknowledged_eq ais_ships_doc_def ais_ships_doc_arr_map)
  moreover have "map cmd_doc (drop (length (issued m))
       (issued (snd (storeGenericSensors srv this generic_pb timestamp m)))) =
     [[(''genericSensors'', B_array (map (\<lambda>g. B_document (generic_sensor_doc g)) generic_pb)),
       (''timestamp'', B_utf8 timestamp)]]"
    by (simp add: storeGenericSensors_def insert_acknowledged_eq generic_doc_def
        generic_doc_arr_map)
  moreover have "map cmd_doc (drop (length (issued m))
       (issued (snd (storeBatteries srv this battery_pb timestamp m)))) =
     [[(''batteries'', B_array (map (\<lambda>b. B_document (battery_doc b)) battery_pb)),
       (''timestamp'', B_utf8 timestamp)]]"
    by (simp add: storeBatteries_def insert_acknowledged_eq batteries_doc_def
        batteries_doc_arr_map)
  moreover have "map cmd_doc (drop (length (issued m))
       (issued (snd (storeWindSensors srv this wind_pb timestamp m)))) =
     [[(''windSensors'', B_array (map (\<lambda>w. B_document (wind_sensor_doc w)) wind_pb)),
       (''timestamp'', B_utf8 timestamp)]]"
    by (simp add: storeWindSensors_def insert_acknowledged_eq wind_doc_def wind_doc_arr_map)
  moreover have "map cmd_doc (drop (length (issued m))
       (issued (snd (storePathSensors srv this local_path_pb timestamp m)))) =
     [[(''waypoints'', B_array (map (\<lambda>p. B_document (waypoint_doc p)) (waypoints local_path_pb))),
       (''timestamp'', B_utf8 timestamp)]]"
    by (simp add: storePathSensors_def insert_acknowledged_eq local_path_doc_def
        local_path_doc_arr_map)
  moreover have "map fst (ais_ship_doc ais_ship) =
     [''id'', ''latitude'', ''longitude'', ''sog'', ''cog'', ''rot'', ''width'', ''length''] \<and>
   map_of (ais_ship_doc ais_ship) ''sog'' = Some (B_double (ais_sog ais_ship)) \<and>
   map_of (ais_ship_doc ais_ship) ''cog'' = Some (B_double (ais_cog ais_ship)) \<and>
   map_of (ais_ship_doc ais_ship) ''rot'' = Some (B_double (ais_rot ais_ship))"
    by (simp add: ais_ship_doc_def)
  ultimately show ?thesis by blast
qed

subsection \<open>The example scenario\<close>



end
